theory Spec2Isabelle
  imports Complex_Main
begin

section \<open>Values of the host language\<close>

text \<open>
  The program is the single component \<^verbatim>\<open>src/MovieRanker.jsx\<close>. Its numbers are
  JavaScript Numbers. Finite Numbers are modelled by the reals (no rounding of
  intermediate results, no overflow); \<open>NaN\<close> is kept as a value of its own because the
  program tests for it. A rating is \<open>null\<close> (\<open>None\<close>) or a Number.
  The results of \<^verbatim>\<open>Math.round\<close> are integers, so ratings on the Elo scale and the
  counters of an item are \<open>int\<close> and \<open>nat\<close>.
\<close>

datatype number = NaN | Num real

text \<open>\<^verbatim>\<open>Math.round\<close>: the nearest integer, a tie going up.\<close>

definition Math_round :: "real \<Rightarrow> int" where
  "Math_round x = \<lfloor>x + 1 / 2\<rfloor>"

text \<open>
  Strings are lists of characters, a character standing for a code unit below 256.
  \<^verbatim>\<open>String.prototype.trim\<close> removes white space and line terminators at both ends;
  below 256 these are TAB, LF, VT, FF, CR, SP and NBSP.
\<close>

definition isWhiteSpace :: "char \<Rightarrow> bool" where
  "isWhiteSpace c =
     (c \<in> {CHR 0x09, CHR 0x0A, CHR 0x0B, CHR 0x0C, CHR 0x0D, CHR 0x20, CHR 0xA0})"

definition trimStart :: "string \<Rightarrow> string" where
  "trimStart s = dropWhile isWhiteSpace s"

definition trimEnd :: "string \<Rightarrow> string" where
  "trimEnd s = rev (dropWhile isWhiteSpace (rev s))"

definition trim :: "string \<Rightarrow> string" where
  "trim s = trimEnd (trimStart s)"

subsection \<open>parseFloat\<close>

text \<open>
  \<^verbatim>\<open>parseFloat\<close> skips leading white space and reads the longest prefix that is a
  \<open>StrDecimalLiteral\<close>: an optional sign, then digits with an optional fraction, or a
  fraction alone, then an optional exponent part. With no such prefix the result is
  \<open>NaN\<close>. The value is the exact decimal value. The literal \<^verbatim>\<open>Infinity\<close>, which
  the host language also accepts here, denotes a Number that is not finite; it has no
  counterpart in \<^typ>\<open>number\<close> and is read as no literal at all.
\<close>

definition isDigit :: "char \<Rightarrow> bool" where
  "isDigit c = (c \<in> set ''0123456789'')"

definition digitVal :: "char \<Rightarrow> nat" where
  "digitVal c = of_char c - 48"

definition decimalValue :: "string \<Rightarrow> nat" where
  "decimalValue ds = foldl (\<lambda>n c. 10 * n + digitVal c) 0 ds"

definition signedInteger :: "string \<Rightarrow> int" where
  "signedInteger s =
     (case s of
        [] \<Rightarrow> 0
      | c # t \<Rightarrow>
          if c = CHR ''+'' then int (decimalValue (takeWhile isDigit t))
          else if c = CHR ''-'' then - int (decimalValue (takeWhile isDigit t))
          else int (decimalValue (takeWhile isDigit s)))"

text \<open>
  The exponent of an optional \<open>ExponentPart\<close> at the head of \<open>s\<close>. An exponent
  indicator that no digit follows is not part of the literal; the exponent is then 0,
  as it is when the part is missing.
\<close>

definition exponentPart :: "string \<Rightarrow> int" where
  "exponentPart s =
     (case s of
        [] \<Rightarrow> 0
      | c # t \<Rightarrow> if c = CHR ''e'' \<or> c = CHR ''E'' then signedInteger t else 0)"

definition scale10 :: "real \<Rightarrow> int \<Rightarrow> real" where
  "scale10 m e = (if 0 \<le> e then m * 10 ^ nat e else m / 10 ^ nat (- e))"

definition fractionValue :: "string \<Rightarrow> real" where
  "fractionValue fs = real (decimalValue fs) / 10 ^ length fs"

definition strUnsignedDecimalLiteral :: "string \<Rightarrow> real option" where
  "strUnsignedDecimalLiteral s =
     (let ip = takeWhile isDigit s; r1 = dropWhile isDigit s in
      case r1 of
        [] \<Rightarrow> if ip = [] then None else Some (real (decimalValue ip))
      | c # r2 \<Rightarrow>
          if c = CHR ''.'' then
            (let fp = takeWhile isDigit r2; r3 = dropWhile isDigit r2 in
             if ip = [] \<and> fp = [] then None
             else Some (scale10 (real (decimalValue ip) + fractionValue fp) (exponentPart r3)))
          else if ip = [] then None
          else Some (scale10 (real (decimalValue ip)) (exponentPart r1)))"

definition signedLiteral :: "real \<Rightarrow> string \<Rightarrow> number" where
  "signedLiteral sg s =
     (case strUnsignedDecimalLiteral s of None \<Rightarrow> NaN | Some v \<Rightarrow> Num (sg * v))"

definition parseFloat :: "string \<Rightarrow> number" where
  "parseFloat s =
     (case trimStart s of
        [] \<Rightarrow> NaN
      | c # t \<Rightarrow>
          if c = CHR ''+'' then signedLiteral 1 t
          else if c = CHR ''-'' then signedLiteral (- 1) t
          else signedLiteral 1 (c # t))"

section \<open>Rating engine\<close>

text \<open>
  \<^verbatim>\<open>!rating\<close> holds of \<open>null\<close>, of \<open>NaN\<close> and of zero; \<^verbatim>\<open>isNaN(rating)\<close>
  holds of \<open>NaN\<close> only (\<open>null\<close> converts to 0).
\<close>

definition falsy :: "number option \<Rightarrow> bool" where
  "falsy v = (case v of None \<Rightarrow> True | Some NaN \<Rightarrow> True | Some (Num r) \<Rightarrow> r = 0)"

definition isNaN :: "number option \<Rightarrow> bool" where
  "isNaN v = (case v of None \<Rightarrow> False | Some NaN \<Rightarrow> True | Some (Num r) \<Rightarrow> False)"

text \<open>
  \<^verbatim>\<open>ratingToInitialElo\<close>. Past the guard the rating is a finite Number, which
  \<^verbatim>\<open>parseFloat(rating)\<close> gives back unchanged.
\<close>

definition ratingToInitialElo :: "number option \<Rightarrow> int" where
  "ratingToInitialElo rating =
     (if falsy rating \<or> isNaN rating then 1200
      else case rating of
             Some (Num r) \<Rightarrow> Math_round (1200 + (r - 5 / 2) * 200)
           | _ \<Rightarrow> 1200)"

definition expectedScore :: "real \<Rightarrow> real \<Rightarrow> real" where
  "expectedScore eloA eloB = 1 / (1 + 10 powr ((eloB - eloA) / 400))"

text \<open>
  \<^verbatim>\<open>updateElo(eloA, eloB, scoreA, k = 32)\<close>. The optional parameter is an
  \<open>option\<close>. \<open>updateElo_raw\<close> is the body up to the return statement: the constants
  \<open>newA\<close> and \<open>newB\<close>, not yet rounded.
\<close>

definition updateElo_raw :: "real \<Rightarrow> real \<Rightarrow> real \<Rightarrow> real option \<Rightarrow> real \<times> real" where
  "updateElo_raw eloA eloB scoreA kopt =
     (let k = (case kopt of None \<Rightarrow> 32 | Some k' \<Rightarrow> k');
          expA = expectedScore eloA eloB;
          expB = 1 - expA;
          nA = eloA + k * (scoreA - expA);
          nB = eloB + k * ((1 - scoreA) - expB)
      in (nA, nB))"

definition updateElo :: "real \<Rightarrow> real \<Rightarrow> real \<Rightarrow> real option \<Rightarrow> int \<times> int" where
  "updateElo eloA eloB scoreA kopt =
     (case updateElo_raw eloA eloB scoreA kopt of (nA, nB) \<Rightarrow> (Math_round nA, Math_round nB))"

section \<open>Store\<close>

record item =
  id_item :: string
  title :: string
  year :: string
  rating :: "number option"
  elo :: int
  played :: nat
  wins :: nat
  losses :: nat

record entry =
  time :: string
  winner :: string
  loser :: string
  prevA :: int
  prevB :: int
  newA :: int
  newB :: int

text \<open>
  The state of the component that the rating engine owns: \<open>movies\<close> and \<open>history\<close>.
  The status message and the pair on display are presentation state.
\<close>

record store =
  movies :: "item list"
  history :: "entry list"

definition emptyStore :: store where
  "emptyStore = \<lparr>movies = [], history = []\<rparr>"

section \<open>Import\<close>

text \<open>
  A row of the parsed sheet is an object from field names to strings, given as the list
  of its fields in the order of \<^verbatim>\<open>Object.keys\<close>. \<open>get r k\<close> is \<^verbatim>\<open>r[k]\<close>,
  \<open>None\<close> standing for \<open>undefined\<close>.
\<close>

type_synonym row = "(string \<times> string) list"

definition get :: "row \<Rightarrow> string \<Rightarrow> string option" where
  "get r k = map_of r k"

definition titleKeys :: "string list" where
  "titleKeys = [''Title'', ''title'', ''Film'', ''Name'']"

definition ratingKeys :: "string list" where
  "ratingKeys = [''Rating'', ''rating'', ''Your Rating'', ''your_rating'']"

definition yearKeys :: "string list" where
  "yearKeys = [''Year'', ''year'', ''Release Year'']"

definition mapKey :: "string list \<Rightarrow> row \<Rightarrow> string option" where
  "mapKey keys r = List.find (\<lambda>k. get r k \<noteq> None) keys"

text \<open>
  A chain \<^verbatim>\<open>a || b || ... || lit\<close> over field values: the first operand that is
  neither \<open>undefined\<close> nor the empty string, else the literal.
\<close>

fun firstTruthy :: "string option list \<Rightarrow> string \<Rightarrow> string" where
  "firstTruthy [] lit = lit"
| "firstTruthy (None # vs) lit = firstTruthy vs lit"
| "firstTruthy (Some s # vs) lit = (if s = [] then firstTruthy vs lit else s)"

text \<open>\<^verbatim>\<open>key && r[key]\<close>, and \<^verbatim>\<open>r[Object.keys(r)[0]]\<close>.\<close>

definition guarded :: "string option \<Rightarrow> row \<Rightarrow> string option" where
  "guarded key r = (case key of None \<Rightarrow> None | Some k \<Rightarrow> get r k)"

definition firstField :: "row \<Rightarrow> string option" where
  "firstField r = (case r of [] \<Rightarrow> get r ''undefined'' | (k, v) # r' \<Rightarrow> get r k)"

definition rowTitle :: "string option \<Rightarrow> row \<Rightarrow> string" where
  "rowTitle tKey r = firstTruthy [guarded tKey r, firstField r] ''Unknown''"

definition rowYear :: "string option \<Rightarrow> row \<Rightarrow> string" where
  "rowYear yKey r = firstTruthy [guarded yKey r] ''''"

text \<open>\<^verbatim>\<open>r[rKey]\<close> with \<open>rKey\<close> null reads the field named \<^verbatim>\<open>null\<close>.\<close>

definition rowRawRating :: "string option \<Rightarrow> row \<Rightarrow> string" where
  "rowRawRating rKey r =
     firstTruthy
       [get r (case rKey of None \<Rightarrow> ''null'' | Some k \<Rightarrow> k), get r ''Rating'', get r ''rating'']
       ''''"

definition normalizeRating :: "string \<Rightarrow> number option" where
  "normalizeRating rawRating = (if rawRating = '''' then None else Some (parseFloat rawRating))"

definition parseRow :: "string option \<Rightarrow> string option \<Rightarrow> string option \<Rightarrow> row \<Rightarrow> item" where
  "parseRow tKey rKey yKey r =
     (let title' = rowTitle tKey r;
          year' = rowYear yKey r;
          rawRating = rowRawRating rKey r;
          normalizedRating = normalizeRating rawRating
      in \<lparr>id_item = trim (title' @ ''|'' @ year'),
          title = trim title',
          year = (if year' = '''' then year' else trim year'),
          rating = normalizedRating,
          elo = ratingToInitialElo normalizedRating,
          played = 0,
          wins = 0,
          losses = 0\<rparr>)"

text \<open>
  The rows of a sheet. The recognised keys are looked up in \<^verbatim>\<open>rows[0] || {}\<close>: the
  first row, or an object with no field.
\<close>

definition firstRow :: "row list \<Rightarrow> row" where
  "firstRow rows = (case rows of [] \<Rightarrow> [] | r # rs \<Rightarrow> r)"

definition parseRows :: "row list \<Rightarrow> item list" where
  "parseRows rows =
     (let first = firstRow rows;
          tKey = mapKey titleKeys first;
          rKey = mapKey ratingKeys first;
          yKey = mapKey yearKeys first
      in map (parseRow tKey rKey yKey) rows)"

text \<open>
  What the parsing collaborator delivers for a file: rows to the \<open>complete\<close> callback, or
  a message to the \<open>error\<close> callback.
\<close>

datatype csvfile = Complete "row list" | Failed string

definition mergeMovies :: "item list \<Rightarrow> item list \<Rightarrow> item list" where
  "mergeMovies cur parsed =
     (let existingIds = set (map id_item cur);
          toAdd = filter (\<lambda>p. id_item p \<notin> existingIds) parsed
      in cur @ toAdd)"

definition importRatingsCsv :: "csvfile option \<Rightarrow> bool \<Rightarrow> store \<Rightarrow> store" where
  "importRatingsCsv file merge s =
     (case file of
        None \<Rightarrow> s
      | Some (Failed err) \<Rightarrow> s
      | Some (Complete rows) \<Rightarrow>
          (let parsed = parseRows rows
           in s\<lparr>movies := (if \<not> merge then parsed else mergeMovies (movies s) parsed)\<rparr>))"

section \<open>Pair selection\<close>

text \<open>
  \<^verbatim>\<open>pickPair\<close> reads \<^verbatim>\<open>Math.random()\<close> twice in every round of its loop. The random
  source is the parameter \<open>rnd\<close>: \<open>rnd n\<close> is what the \<open>n\<close>-th call returns, counted
  from 0. \<open>randomItem ms x\<close> is \<^verbatim>\<open>movies[Math.floor(x * movies.length)]\<close>, which is
  \<open>undefined\<close> outside the array.
\<close>

definition sampleSize :: "nat \<Rightarrow> nat" where
  "sampleSize n = min 200 (n * 2)"

definition randomItem :: "item list \<Rightarrow> real \<Rightarrow> item option" where
  "randomItem ms x =
     (let i = \<lfloor>x * real (length ms)\<rfloor>
      in if 0 \<le> i \<and> i < int (length ms) then Some (ms ! nat i) else None)"

type_synonym pick = "item \<times> item \<times> int"

text \<open>Round \<open>i\<close> of the loop, on the picks collected so far.\<close>

definition draw :: "item list \<Rightarrow> (nat \<Rightarrow> real) \<Rightarrow> nat \<Rightarrow> pick list \<Rightarrow> pick list" where
  "draw ms rnd i picks =
     (case randomItem ms (rnd (2 * i)) of
        None \<Rightarrow> picks
      | Some a \<Rightarrow>
          (case randomItem ms (rnd (2 * i + 1)) of
             None \<Rightarrow> picks
           | Some b \<Rightarrow>
               if id_item a = id_item b then picks
               else picks @ [(a, b, \<bar>elo a - elo b\<bar>)]))"

definition samplePicks :: "item list \<Rightarrow> (nat \<Rightarrow> real) \<Rightarrow> pick list" where
  "samplePicks ms rnd = fold (draw ms rnd) [0..<sampleSize (length ms)] []"

text \<open>
  \<^verbatim>\<open>picks.sort((x, y) => x[2] - y[2])\<close> is a stable sort on the third component.
  The result is the pair \<open>(left, right)\<close>; \<open>None\<close> when both are set to \<open>null\<close>.
\<close>

definition pickPair :: "item list \<Rightarrow> (nat \<Rightarrow> real) \<Rightarrow> (item \<times> item) option" where
  "pickPair ms rnd =
     (if length ms < 2 then None
      else
        (let picks = samplePicks ms rnd
         in if length picks = 0 then Some (ms ! 0, ms ! 1)
            else (case sort_key (\<lambda>p. snd (snd p)) picks of
                    [] \<Rightarrow> None
                  | best # rest \<Rightarrow> Some (fst best, fst (snd best)))))"

section \<open>Resolving a comparison\<close>

text \<open>
  \<^verbatim>\<open>handleChoice(winnerId, loserId)\<close>; \<open>now\<close> is the time stamp
  \<^verbatim>\<open>new Date().toISOString()\<close>. \<open>bump a nA b nB\<close> is the function that
  \<^verbatim>\<open>setMovies\<close> maps over the collection, for the found items \<open>a\<close> and \<open>b\<close> and
  the two new ratings. An argument that is \<open>undefined\<close> finds no item, as an id does
  that no item has.
\<close>

definition bump :: "item \<Rightarrow> int \<Rightarrow> item \<Rightarrow> int \<Rightarrow> item \<Rightarrow> item" where
  "bump a nA b nB m =
     (if id_item m = id_item a then m\<lparr>elo := nA, played := played m + 1, wins := wins m + 1\<rparr>
      else if id_item m = id_item b then m\<lparr>elo := nB, played := played m + 1, losses := losses m + 1\<rparr>
      else m)"

definition handleChoice :: "string \<Rightarrow> string \<Rightarrow> string \<Rightarrow> store \<Rightarrow> store" where
  "handleChoice now winnerId loserId s =
     (case List.find (\<lambda>m. id_item m = winnerId) (movies s) of
        None \<Rightarrow> s
      | Some a \<Rightarrow>
          (case List.find (\<lambda>m. id_item m = loserId) (movies s) of
             None \<Rightarrow> s
           | Some b \<Rightarrow>
               (case updateElo (real_of_int (elo a)) (real_of_int (elo b)) 1 None of
                  (nA, nB) \<Rightarrow>
                    \<lparr>movies = map (bump a nA b nB) (movies s),
                     history =
                       \<lparr>time = now, winner = id_item a, loser = id_item b,
                        prevA = elo a, prevB = elo b, newA = nA, newB = nB\<rparr> # history s\<rparr>)))"



section \<open>Properties of the rating engine\<close>

lemma expectedScore_complement: "1 - expectedScore eloA eloB = expectedScore eloB eloA"
proof -
  define y where "y = (10::real) powr ((eloB - eloA) / 400)"
  have pos: "0 < y" by (simp add: y_def)
  have "(eloA - eloB) / 400 = - ((eloB - eloA) / 400)" by (simp add: field_simps)
  then have inv: "(10::real) powr ((eloA - eloB) / 400) = 1 / y"
    by (simp only: y_def powr_minus_divide)
  have "1 - 1 / (1 + y) = 1 / (1 + 1 / y)"
    using pos by (simp add: field_simps)
  then show ?thesis
    by (simp only: expectedScore_def inv flip: y_def)
qed

lemma updateElo_raw_at_1200: "updateElo_raw 1200 1200 1 (Some 32) = (1216, 1184)"
  by (simp add: updateElo_raw_def expectedScore_def)

lemma updateElo_level: "updateElo 1200 1200 1 None = (1216, 1184)"
  by (simp add: updateElo_def updateElo_raw_def expectedScore_def Math_round_def)

text \<open>
  Rounding to the nearest integer, and a comparison of a rating of 1200 with one of 1000.
\<close>

lemma Math_round_nearest:
  "x - 1 / 2 < real_of_int (Math_round x) \<and> real_of_int (Math_round x) \<le> x + 1 / 2"
  unfolding Math_round_def by linarith

lemma Math_round_eq: "real_of_int n - 1 / 2 \<le> x \<Longrightarrow> x < real_of_int n + 1 / 2 \<Longrightarrow> Math_round x = n"
  unfolding Math_round_def by linarith

lemma sqrt10_bounds: "316 / 100 < sqrt 10" "sqrt 10 < 317 / 100"
proof -
  show "316 / 100 < sqrt 10"
    by (rule real_less_rsqrt) (simp add: power2_eq_square)
  show "sqrt 10 < 317 / 100"
    by (rule real_less_lsqrt) (simp_all add: power2_eq_square)
qed

lemma expectedScore_1200_1000: "expectedScore 1200 1000 = 1 / (1 + 1 / sqrt 10)"
proof -
  have "(10::real) powr (- (1 / 2)) = 1 / sqrt 10"
    by (simp add: powr_minus powr_half_sqrt inverse_eq_divide)
  moreover have "((1000::real) - 1200) / 400 = - (1 / 2)"
    by simp
  ultimately show ?thesis
    by (simp only: expectedScore_def)
qed

lemma updateElo_raw_1200_1000:
  "updateElo_raw 1200 1000 1 None = (1200 + 32 / (sqrt 10 + 1), 1000 - 32 / (sqrt 10 + 1))"
proof -
  have gen: "1 - 1 / (1 + 1 / y) = 1 / (y + 1)" if "0 < y" for y :: real
  proof -
    from that have "y \<noteq> 0" "y + 1 \<noteq> 0" by simp_all
    then show ?thesis by (simp add: field_simps)
  qed
  have "1 - 1 / (1 + 1 / sqrt 10) = 1 / (sqrt 10 + 1)"
    by (rule gen) simp
  then show ?thesis
    by (simp add: updateElo_raw_def expectedScore_1200_1000 Let_def)
qed

lemma updateElo_1200_1000: "updateElo 1200 1000 1 None = (1208, 992)"
proof -
  define d where "d = 32 / (sqrt 10 + 1 :: real)"
  have lo: "767 / 100 < d"
    unfolding d_def using sqrt10_bounds by (simp add: field_simps)
  have hi: "d < 770 / 100"
    unfolding d_def using sqrt10_bounds by (simp add: field_simps)
  have a: "Math_round (1200 + d) = 1208"
    by (rule Math_round_eq) (use lo hi in simp_all)
  have b: "Math_round (1000 - d) = 992"
    by (rule Math_round_eq) (use lo hi in simp_all)
  show ?thesis
    by (simp add: updateElo_def updateElo_raw_1200_1000 a b flip: d_def)
qed

lemma updateElo_tie: "updateElo 1200 1200 1 (Some 1) = (1201, 1200)"
  by (simp add: updateElo_def updateElo_raw_def expectedScore_def Math_round_def)

lemma updateElo_raw_tie: "updateElo_raw 1200 1200 1 (Some 1) = (1200 + 1 / 2, 1200 - 1 / 2)"
  by (simp add: updateElo_raw_def expectedScore_def)

text \<open>
  Claim C3. The expected score of A is \<open>1 / (1 + 10 powr ((eloB - eloA) / 400))\<close> and
  that of B is its complement, which is also the expected score with the two sides
  exchanged. Each new rating is the old one plus \<open>k\<close> times the difference of actual and
  expected score, rounded on its own side; \<open>k\<close> is 32 when it is not given. The
  rounding is to the nearest integer: each result is less than one half below the value
  before rounding and at most one half above it, exactly one half above at a tie. At \<open>(1200, 1200)\<close> with a win for A the results are 1216 and 1184, above and
  below 1200, and before rounding the two changes are \<open>+16\<close> and \<open>-16\<close>; before
  rounding the change of A is always the negative of the change of B. At
  \<open>(1200, 1000)\<close> with a win for A the values before rounding are
  \<open>1200 + 32 / (sqrt 10 + 1)\<close> and \<open>1000 - 32 / (sqrt 10 + 1)\<close>, about 1207.69 and
  992.31, and the results are 1208 and 992. With \<open>k = 1\<close> at \<open>(1200, 1200)\<close> the values
  before rounding are 1200.5 and 1199.5, and both ties go up, to 1201 and 1200.
\<close>

theorem updateElo_formula:
  "expectedScore eloA eloB = 1 / (1 + 10 powr ((eloB - eloA) / 400))
   \<and> 1 - expectedScore eloA eloB = expectedScore eloB eloA
   \<and> updateElo eloA eloB scoreA (Some k) =
       (Math_round (eloA + k * (scoreA - expectedScore eloA eloB)),
        Math_round (eloB + k * ((1 - scoreA) - (1 - expectedScore eloA eloB))))
   \<and> updateElo eloA eloB scoreA None = updateElo eloA eloB scoreA (Some 32)
   \<and> updateElo 1200 1200 1 (Some 32) = (1216, 1184)
   \<and> 1200 < fst (updateElo 1200 1200 1 (Some 32))
   \<and> snd (updateElo 1200 1200 1 (Some 32)) < 1200
   \<and> updateElo_raw 1200 1200 1 (Some 32) = (1200 + 16, 1200 - 16)
   \<and> fst (updateElo_raw eloA eloB scoreA kopt) - eloA
       = - (snd (updateElo_raw eloA eloB scoreA kopt) - eloB)
   \<and> fst (updateElo_raw eloA eloB scoreA kopt) - 1 / 2
       < real_of_int (fst (updateElo eloA eloB scoreA kopt))
   \<and> real_of_int (fst (updateElo eloA eloB scoreA kopt))
       \<le> fst (updateElo_raw eloA eloB scoreA kopt) + 1 / 2
   \<and> snd (updateElo_raw eloA eloB scoreA kopt) - 1 / 2
       < real_of_int (snd (updateElo eloA eloB scoreA kopt))
   \<and> real_of_int (snd (updateElo eloA eloB scoreA kopt))
       \<le> snd (updateElo_raw eloA eloB scoreA kopt) + 1 / 2
   \<and> updateElo_raw 1200 1000 1 None = (1200 + 32 / (sqrt 10 + 1), 1000 - 32 / (sqrt 10 + 1))
   \<and> updateElo 1200 1000 1 None = (1208, 992)
   \<and> updateElo_raw 1200 1200 1 (Some 1) = (1200 + 1 / 2, 1200 - 1 / 2)
   \<and> updateElo 1200 1200 1 (Some 1) = (1201, 1200)"
proof -
  have e: "expectedScore eloA eloB = 1 / (1 + 10 powr ((eloB - eloA) / 400))"
    by (simp add: expectedScore_def)
  have c: "1 - expectedScore eloA eloB = expectedScore eloB eloA"
    by (rule expectedScore_complement)
  have f: "updateElo eloA eloB scoreA (Some k) =
       (Math_round (eloA + k * (scoreA - expectedScore eloA eloB)),
        Math_round (eloB + k * ((1 - scoreA) - (1 - expectedScore eloA eloB))))"
    by (simp add: updateElo_def updateElo_raw_def Let_def)
  have d: "updateElo eloA eloB scoreA None = updateElo eloA eloB scoreA (Some 32)"
    by (simp add: updateElo_def updateElo_raw_def)
  have v: "updateElo 1200 1200 1 (Some 32) = (1216, 1184)"
    by (simp add: updateElo_def updateElo_raw_at_1200 Math_round_def)
  have g: "1200 < fst (updateElo 1200 1200 1 (Some 32))"
    by (simp add: v)
  have l: "snd (updateElo 1200 1200 1 (Some 32)) < 1200"
    by (simp add: v)
  have r: "updateElo_raw 1200 1200 1 (Some 32) = (1200 + 16, 1200 - 16)"
    by (simp add: updateElo_raw_at_1200)
  have z: "fst (updateElo_raw eloA eloB scoreA kopt) - eloA
       = - (snd (updateElo_raw eloA eloB scoreA kopt) - eloB)"
    by (simp add: updateElo_raw_def Let_def algebra_simps)
  obtain nA nB where raw: "updateElo_raw eloA eloB scoreA kopt = (nA, nB)"
    by (cases "updateElo_raw eloA eloB scoreA kopt")
  then have rounded: "updateElo eloA eloB scoreA kopt = (Math_round nA, Math_round nB)"
    by (simp add: updateElo_def)
  have n1: "fst (updateElo_raw eloA eloB scoreA kopt) - 1 / 2
       < real_of_int (fst (updateElo eloA eloB scoreA kopt))"
    using Math_round_nearest [of nA] by (simp add: raw rounded)
  have n2: "real_of_int (fst (updateElo eloA eloB scoreA kopt))
       \<le> fst (updateElo_raw eloA eloB scoreA kopt) + 1 / 2"
    using Math_round_nearest [of nA] by (simp add: raw rounded)
  have n3: "snd (updateElo_raw eloA eloB scoreA kopt) - 1 / 2
       < real_of_int (snd (updateElo eloA eloB scoreA kopt))"
    using Math_round_nearest [of nB] by (simp add: raw rounded)
  have n4: "real_of_int (snd (updateElo eloA eloB scoreA kopt))
       \<le> snd (updateElo_raw eloA eloB scoreA kopt) + 1 / 2"
    using Math_round_nearest [of nB] by (simp add: raw rounded)
  show ?thesis
    by (intro conjI)
      (rule e, rule c, rule f, rule d, rule v, rule g, rule l, rule r, rule z,
        rule n1, rule n2, rule n3, rule n4,
        rule updateElo_raw_1200_1000, rule updateElo_1200_1000,
        rule updateElo_raw_tie, rule updateElo_tie)
qed

text \<open>
  The initial rating of a rating other than zero follows the linear formula, and on
  those ratings it is monotone, with 1200 at the centre and for an absent rating.
\<close>

lemma ratingToInitialElo_nonzero:
  "r \<noteq> 0 \<Longrightarrow> ratingToInitialElo (Some (Num r)) = Math_round (1200 + (r - 5 / 2) * 200)"
  by (simp add: ratingToInitialElo_def falsy_def isNaN_def)

lemma ratingToInitialElo_mono:
  "0 < r \<Longrightarrow> r \<le> r' \<Longrightarrow>
     ratingToInitialElo (Some (Num r)) \<le> ratingToInitialElo (Some (Num r'))"
  by (simp add: ratingToInitialElo_nonzero Math_round_def floor_mono)

lemma ratingToInitialElo_centre: "ratingToInitialElo (Some (Num (5 / 2))) = 1200"
  by (simp add: ratingToInitialElo_def falsy_def isNaN_def Math_round_def)

lemma ratingToInitialElo_absent:
  "ratingToInitialElo None = 1200" "ratingToInitialElo (Some NaN) = 1200"
  by (simp_all add: ratingToInitialElo_def falsy_def isNaN_def)

text \<open>
  Claim C1. The claim asks for \<open>round (1200 + (r - 2.5) * 200)\<close> at every present
  rating of \<open>[0, 5]\<close> and for a monotone function there. At the rating 0, which the
  rating string \<^verbatim>\<open>0\<close> gives, the guard \<^verbatim>\<open>!rating\<close> holds and the function answers
  1200 where the formula gives 700; the rating one half is mapped to 800, below the
  value at 0.
\<close>

theorem ratingToInitialElo_zero:
  "ratingToInitialElo (Some (Num 0)) = 1200
   \<and> Math_round (1200 + (0 - 5 / 2) * 200) = 700
   \<and> ratingToInitialElo (Some (Num (1 / 2))) = 800
   \<and> normalizeRating ''0'' = Some (Num 0)"
proof -
  have "parseFloat ''0'' = Num 0"
    by code_simp
  then show ?thesis
    by (simp add: ratingToInitialElo_def falsy_def isNaN_def Math_round_def normalizeRating_def)
qed

section \<open>Properties of the import\<close>

lemma bar_not_space: "\<not> isWhiteSpace CHR ''|''"
  by (simp add: isWhiteSpace_def)

lemma trim_bar: "trim (t @ CHR ''|'' # y) = trimStart t @ CHR ''|'' # trimEnd y"
proof -
  have "trimStart (t @ CHR ''|'' # y) = trimStart t @ CHR ''|'' # y"
    unfolding trimStart_def using bar_not_space by (rule dropWhile_append3)
  moreover have "trimEnd (a @ CHR ''|'' # y) = a @ CHR ''|'' # trimEnd y" for a
  proof -
    have "dropWhile isWhiteSpace (rev y @ CHR ''|'' # rev a)
            = dropWhile isWhiteSpace (rev y) @ CHR ''|'' # rev a"
      using bar_not_space by (rule dropWhile_append3)
    then show ?thesis by (simp add: trimEnd_def)
  qed
  ultimately show ?thesis by (simp add: trim_def)
qed

lemma parseRow_fields:
  "id_item (parseRow tKey rKey yKey r) = trim (rowTitle tKey r @ ''|'' @ rowYear yKey r)"
  "title (parseRow tKey rKey yKey r) = trim (rowTitle tKey r)"
  "rating (parseRow tKey rKey yKey r) = normalizeRating (rowRawRating rKey r)"
  "elo (parseRow tKey rKey yKey r) = ratingToInitialElo (normalizeRating (rowRawRating rKey r))"
  "played (parseRow tKey rKey yKey r) = 0"
  "wins (parseRow tKey rKey yKey r) = 0"
  "losses (parseRow tKey rKey yKey r) = 0"
  by (simp_all add: parseRow_def Let_def)

lemma parseRows_map:
  "parseRows rows =
     map (parseRow (mapKey titleKeys (firstRow rows)) (mapKey ratingKeys (firstRow rows))
            (mapKey yearKeys (firstRow rows))) rows"
  by (simp add: parseRows_def Let_def)

lemma import_Complete:
  "importRatingsCsv (Some (Complete rows)) merge s =
     s\<lparr>movies := (if merge then mergeMovies (movies s) (parseRows rows) else parseRows rows)\<rparr>"
  by (simp add: importRatingsCsv_def Let_def)

lemma history_import: "history (importRatingsCsv file merge s) = history s"
  by (simp add: importRatingsCsv_def Let_def split: option.split csvfile.split)

lemma mergeMovies_eq:
  "mergeMovies cur parsed = cur @ filter (\<lambda>p. id_item p \<notin> set (map id_item cur)) parsed"
  by (simp add: mergeMovies_def Let_def)

lemma mergeMovies_again: "mergeMovies (mergeMovies cur parsed) parsed = mergeMovies cur parsed"
proof -
  have "filter (\<lambda>p. id_item p \<notin> set (map id_item (mergeMovies cur parsed))) parsed = []"
    by (auto simp: mergeMovies_eq filter_empty_conv)
  then show ?thesis
    by (simp add: mergeMovies_eq [of "mergeMovies cur parsed"])
qed

text \<open>
  Claim C4, as the program has it. The id of an imported row is the trimmed
  concatenation \<open>trim (title @ ''|'' @ year)\<close> of the resolved title and year, which is
  the title without its leading white space, the bar, and the year without its trailing
  white space: white space after the title and before the year stays in the id. Two rows
  whose resolved titles agree up to leading white space and whose resolved years agree up
  to trailing white space have the same id.
\<close>

theorem parseRow_id:
  "id_item (parseRow tKey rKey yKey r) = trim (rowTitle tKey r @ ''|'' @ rowYear yKey r)
   \<and> id_item (parseRow tKey rKey yKey r) = trimStart (rowTitle tKey r) @ ''|'' @ trimEnd (rowYear yKey r)
   \<and> map id_item (parseRows rows) =
       map (\<lambda>r. trim (rowTitle (mapKey titleKeys (firstRow rows)) r @ ''|'' @
                      rowYear (mapKey yearKeys (firstRow rows)) r)) rows
   \<and> (trimStart (rowTitle tKey r) = trimStart (rowTitle tKey' r') \<and>
      trimEnd (rowYear yKey r) = trimEnd (rowYear yKey' r') \<longrightarrow>
        id_item (parseRow tKey rKey yKey r) = id_item (parseRow tKey' rKey' yKey' r'))"
  by (simp add: parseRow_fields parseRows_map trim_bar)

text \<open>Two rows that differ in such white space only, and their common id.\<close>

theorem parseRow_id_witness:
  "trimStart (rowTitle (Some ''Title'') [(''Title'', '' A''), (''Year'', ''2001 '')])
     = trimStart (rowTitle (Some ''Title'') [(''Title'', ''A''), (''Year'', ''2001'')])
   \<and> trimEnd (rowYear (Some ''Year'') [(''Title'', '' A''), (''Year'', ''2001 '')])
     = trimEnd (rowYear (Some ''Year'') [(''Title'', ''A''), (''Year'', ''2001'')])
   \<and> id_item (parseRow (Some ''Title'') None (Some ''Year'') [(''Title'', '' A''), (''Year'', ''2001 '')])
     = id_item (parseRow (Some ''Title'') None (Some ''Year'') [(''Title'', ''A''), (''Year'', ''2001'')])
   \<and> id_item (parseRow (Some ''Title'') None (Some ''Year'') [(''Title'', '' A''), (''Year'', ''2001 '')])
     = ''A|2001''"
proof -
  have a: "trimStart (rowTitle (Some ''Title'') [(''Title'', '' A''), (''Year'', ''2001 '')])
     = trimStart (rowTitle (Some ''Title'') [(''Title'', ''A''), (''Year'', ''2001'')])"
    by code_simp
  have b: "trimEnd (rowYear (Some ''Year'') [(''Title'', '' A''), (''Year'', ''2001 '')])
     = trimEnd (rowYear (Some ''Year'') [(''Title'', ''A''), (''Year'', ''2001'')])"
    by code_simp
  have c: "id_item (parseRow (Some ''Title'') None (Some ''Year'') [(''Title'', ''A''), (''Year'', ''2001'')])
     = ''A|2001''"
    by code_simp
  have d: "id_item (parseRow (Some ''Title'') None (Some ''Year'') [(''Title'', '' A''), (''Year'', ''2001 '')])
     = id_item (parseRow (Some ''Title'') None (Some ''Year'') [(''Title'', ''A''), (''Year'', ''2001'')])"
    using a b
      parseRow_id [where tKey = "Some ''Title''" and tKey' = "Some ''Title''"
        and yKey = "Some ''Year''" and yKey' = "Some ''Year''" and rKey = None and rKey' = None
        and r = "[(''Title'', '' A''), (''Year'', ''2001 '')]"
        and r' = "[(''Title'', ''A''), (''Year'', ''2001'')]" and rows = "[]"]
    by blast
  show ?thesis
    by (intro conjI) (rule a, rule b, rule d, simp only: d c)
qed

text \<open>
  Claim C4 as it is written fails: the titles \<^verbatim>\<open>A \<close> and \<^verbatim>\<open>A\<close> with the year 2001
  have the same trimmed title and year, yet the first row gets the id \<^verbatim>\<open>A |2001\<close>, not
  \<^verbatim>\<open>A|2001\<close>, and the two ids differ.
\<close>

theorem id_keeps_inner_space:
  "map id_item (parseRows [[(''Title'', ''A ''), (''Year'', ''2001'')],
                           [(''Title'', ''A''), (''Year'', ''2001'')]])
     = [''A |2001'', ''A|2001'']
   \<and> map (\<lambda>r. trim (rowTitle (Some ''Title'') r) @ ''|'' @ trim (rowYear (Some ''Year'') r))
        [[(''Title'', ''A ''), (''Year'', ''2001'')], [(''Title'', ''A''), (''Year'', ''2001'')]]
     = [''A|2001'', ''A|2001'']"
  by code_simp

text \<open>
  Claim C5, as the program has it. The rating of an imported row is \<open>null\<close> exactly
  when its raw rating string is empty; otherwise it is \<open>parseFloat\<close> of that string,
  which for a string with no numeric prefix such as \<^verbatim>\<open>abc\<close> is \<open>NaN\<close>, not
  \<open>null\<close>. The initial Elo rating is computed from that rating and is 1200 for both
  \<open>null\<close> and \<open>NaN\<close>.
\<close>

theorem parseRow_rating:
  "rating (parseRow tKey rKey yKey r) =
     (if rowRawRating rKey r = '''' then None else Some (parseFloat (rowRawRating rKey r)))
   \<and> (rating (parseRow tKey rKey yKey r) = None) = (rowRawRating rKey r = '''')
   \<and> map rating (parseRows rows) =
       map (\<lambda>r. normalizeRating (rowRawRating (mapKey ratingKeys (firstRow rows)) r)) rows
   \<and> parseFloat ''abc'' = NaN
   \<and> parseFloat ''4.5'' = Num (9 / 2)
   \<and> elo (parseRow tKey rKey yKey r) = ratingToInitialElo (rating (parseRow tKey rKey yKey r))
   \<and> ratingToInitialElo None = 1200 \<and> ratingToInitialElo (Some NaN) = 1200"
proof -
  have a: "parseFloat ''abc'' = NaN" by code_simp
  have b: "parseFloat ''4.5'' = Num (9 / 2)" by code_simp
  show ?thesis
    by (simp add: parseRow_fields parseRows_map normalizeRating_def a b
        ratingToInitialElo_def falsy_def isNaN_def)
qed

text \<open>
  Claim C5 as it is written fails: a row with the rating string \<^verbatim>\<open>abc\<close> gets the
  rating \<open>NaN\<close>, which is not \<open>null\<close>.
\<close>

theorem non_numeric_rating_is_NaN:
  "rowRawRating (Some ''Rating'') [(''Title'', ''X''), (''Year'', ''2001''), (''Rating'', ''abc'')] = ''abc''
   \<and> map rating (parseRows [[(''Title'', ''X''), (''Year'', ''2001''), (''Rating'', ''abc'')]])
        = [Some NaN]
   \<and> map rating (parseRows [[(''Title'', ''X''), (''Year'', ''2001''), (''Rating'', ''abc'')]])
        \<noteq> [None]"
  by code_simp

text \<open>
  Claim C6. A merging import yields the current collection followed by the parsed items
  whose id no item of the current collection has; the items that were there are an
  unchanged prefix of the result, the same import run again changes nothing, and the
  history is as before.
\<close>

theorem merge_import:
  "movies (importRatingsCsv (Some (Complete rows)) True s)
     = movies s @ filter (\<lambda>p. id_item p \<notin> set (map id_item (movies s))) (parseRows rows)
   \<and> take (length (movies s)) (movies (importRatingsCsv (Some (Complete rows)) True s)) = movies s
   \<and> importRatingsCsv (Some (Complete rows)) True (importRatingsCsv (Some (Complete rows)) True s)
       = importRatingsCsv (Some (Complete rows)) True s
   \<and> history (importRatingsCsv (Some (Complete rows)) True s) = history s"
  by (simp add: import_Complete mergeMovies_again) (simp add: mergeMovies_eq)

text \<open>
  The same title and year imported twice by merging imports, first with the rating 5 and
  then with the rating 1: the second row is dropped and the item keeps the rating 5.
\<close>

theorem merge_import_witness:
  "importRatingsCsv (Some (Complete [[(''Title'', ''X''), (''Year'', ''2001''), (''Rating'', ''5'')]]))
     True emptyStore
   = \<lparr>movies = [\<lparr>id_item = ''X|2001'', title = ''X'', year = ''2001'', rating = Some (Num 5),
                   elo = 1700, played = 0, wins = 0, losses = 0\<rparr>], history = []\<rparr>
   \<and> movies (importRatingsCsv
        (Some (Complete [[(''Title'', ''X''), (''Year'', ''2001''), (''Rating'', ''1'')]])) True
        \<lparr>movies = [\<lparr>id_item = ''X|2001'', title = ''X'', year = ''2001'', rating = Some (Num 5),
                   elo = 1700, played = 0, wins = 0, losses = 0\<rparr>], history = []\<rparr>)
     = [\<lparr>id_item = ''X|2001'', title = ''X'', year = ''2001'', rating = Some (Num 5),
         elo = 1700, played = 0, wins = 0, losses = 0\<rparr>]"
proof -
  let ?X5 = "\<lparr>id_item = ''X|2001'', title = ''X'', year = ''2001'', rating = Some (Num 5),
                   elo = 1700, played = 0, wins = 0, losses = 0\<rparr>"
  let ?s = "\<lparr>movies = [?X5], history = []\<rparr>"
  have a: "importRatingsCsv
      (Some (Complete [[(''Title'', ''X''), (''Year'', ''2001''), (''Rating'', ''5'')]]))
      True emptyStore = ?s"
    by code_simp
  have b: "map id_item (parseRows [[(''Title'', ''X''), (''Year'', ''2001''), (''Rating'', ''1'')]])
     = [''X|2001'']"
    by code_simp
  have c: "filter (\<lambda>p. id_item p \<notin> set (map id_item (movies ?s)))
      (parseRows [[(''Title'', ''X''), (''Year'', ''2001''), (''Rating'', ''1'')]]) = []"
    using b by (auto simp: filter_empty_conv)
  have d: "movies (importRatingsCsv
        (Some (Complete [[(''Title'', ''X''), (''Year'', ''2001''), (''Rating'', ''1'')]])) True ?s)
     = [?X5]"
    using merge_import [of "[[(''Title'', ''X''), (''Year'', ''2001''), (''Rating'', ''1'')]]" ?s,
        THEN conjunct1]
    unfolding c by simp
  show ?thesis
    by (intro conjI) (rule a, rule d)
qed

text \<open>
  Claim C8. A fresh import replaces the collection by the parsed items, whatever was
  imported before, and no import changes the history.
\<close>

theorem fresh_import:
  "movies (importRatingsCsv (Some (Complete rowsB)) False s) = parseRows rowsB
   \<and> movies (importRatingsCsv (Some (Complete rowsB)) False
               (importRatingsCsv (Some (Complete rowsA)) False s)) = parseRows rowsB
   \<and> history (importRatingsCsv file merge s) = history s"
  by (simp add: import_Complete history_import)

text \<open>
  Two titles imported, a comparison resolved, then a fresh import of one other title:
  the collection is the new title alone and the history still holds the comparison.
\<close>

theorem fresh_import_witness:
  "movies (importRatingsCsv (Some (Complete [[(''Title'', ''B'')]])) False
     (handleChoice ''t'' ''A|'' ''C|''
        (importRatingsCsv (Some (Complete [[(''Title'', ''A'')], [(''Title'', ''C'')]])) False emptyStore)))
     = [\<lparr>id_item = ''B|'', title = ''B'', year = '''', rating = None, elo = 1200,
          played = 0, wins = 0, losses = 0\<rparr>]
   \<and> history (importRatingsCsv (Some (Complete [[(''Title'', ''B'')]])) False
     (handleChoice ''t'' ''A|'' ''C|''
        (importRatingsCsv (Some (Complete [[(''Title'', ''A'')], [(''Title'', ''C'')]])) False emptyStore)))
     = [\<lparr>time = ''t'', winner = ''A|'', loser = ''C|'', prevA = 1200, prevB = 1200,
          newA = 1216, newB = 1184\<rparr>]"
proof -
  let ?s1 = "handleChoice ''t'' ''A|'' ''C|''
        (importRatingsCsv (Some (Complete [[(''Title'', ''A'')], [(''Title'', ''C'')]])) False emptyStore)"
  have p: "parseRows [[(''Title'', ''B'')]]
     = [\<lparr>id_item = ''B|'', title = ''B'', year = '''', rating = None, elo = 1200,
          played = 0, wins = 0, losses = 0\<rparr>]"
    by code_simp
  have s0: "importRatingsCsv (Some (Complete [[(''Title'', ''A'')], [(''Title'', ''C'')]])) False emptyStore
     = \<lparr>movies = [\<lparr>id_item = ''A|'', title = ''A'', year = '''', rating = None, elo = 1200,
          played = 0, wins = 0, losses = 0\<rparr>,
        \<lparr>id_item = ''C|'', title = ''C'', year = '''', rating = None, elo = 1200,
          played = 0, wins = 0, losses = 0\<rparr>], history = []\<rparr>"
    by code_simp
  have h: "history ?s1 = [\<lparr>time = ''t'', winner = ''A|'', loser = ''C|'', prevA = 1200,
      prevB = 1200, newA = 1216, newB = 1184\<rparr>]"
    by (simp add: s0 handleChoice_def updateElo_level)
  note f = fresh_import [of "[[(''Title'', ''B'')]]" ?s1 "[]"
      "Some (Complete [[(''Title'', ''B'')]])" False]
  show ?thesis
    using f p h by simp
qed

section \<open>Properties of the store\<close>

lemma id_item_bump: "id_item (bump a nA b nB m) = id_item m"
  by (simp add: bump_def)

lemma handleChoice_absent:
  "List.find (\<lambda>m. id_item m = winnerId) (movies s) = None \<or>
   List.find (\<lambda>m. id_item m = loserId) (movies s) = None \<Longrightarrow>
   handleChoice now winnerId loserId s = s"
  by (auto simp: handleChoice_def split: option.split)

lemma handleChoice_present:
  assumes "List.find (\<lambda>m. id_item m = winnerId) (movies s) = Some a"
    and "List.find (\<lambda>m. id_item m = loserId) (movies s) = Some b"
  shows "handleChoice now winnerId loserId s =
     \<lparr>movies = map (bump a (fst (updateElo (real_of_int (elo a)) (real_of_int (elo b)) 1 None))
                        b (snd (updateElo (real_of_int (elo a)) (real_of_int (elo b)) 1 None)))
                (movies s),
      history = \<lparr>time = now, winner = id_item a, loser = id_item b,
                 prevA = elo a, prevB = elo b,
                 newA = fst (updateElo (real_of_int (elo a)) (real_of_int (elo b)) 1 None),
                 newB = snd (updateElo (real_of_int (elo a)) (real_of_int (elo b)) 1 None)\<rparr>
                # history s\<rparr>"
  using assms by (simp add: handleChoice_def split: prod.split)

lemma find_id: "List.find (\<lambda>m. id_item m = i) ms = Some a \<Longrightarrow> id_item a = i \<and> a \<in> set ms"
  by (auto simp: find_Some_iff)

lemma ids_handleChoice:
  "map id_item (movies (handleChoice now winnerId loserId s)) = map id_item (movies s)"
proof (cases "List.find (\<lambda>m. id_item m = winnerId) (movies s)")
  case None
  then show ?thesis by (simp add: handleChoice_absent)
next
  case a: (Some a)
  show ?thesis
  proof (cases "List.find (\<lambda>m. id_item m = loserId) (movies s)")
    case None
    then show ?thesis by (simp add: handleChoice_absent)
  next
    case (Some b)
    show ?thesis
      by (simp add: handleChoice_present [OF a Some] id_item_bump comp_def)
  qed
qed

text \<open>
  Claim C2, as the program has it. No step removes duplicates inside one batch of rows:
  a fresh import has pairwise distinct ids exactly when the parsed rows have, a merging
  import has them exactly when the current collection has and the items it adds have
  among themselves, and resolving a comparison leaves the sequence of ids as it is. The
  empty collection has distinct ids.
\<close>

theorem ids_distinct_steps:
  "distinct (map id_item (movies (importRatingsCsv (Some (Complete rows)) False s)))
     = distinct (map id_item (parseRows rows))
   \<and> distinct (map id_item (movies (importRatingsCsv (Some (Complete rows)) True s)))
     = (distinct (map id_item (movies s)) \<and>
        distinct (map id_item
          (filter (\<lambda>p. id_item p \<notin> set (map id_item (movies s))) (parseRows rows))))
   \<and> map id_item (movies (handleChoice now winnerId loserId s)) = map id_item (movies s)
   \<and> distinct (map id_item (movies emptyStore))"
proof -
  have "distinct (map id_item (mergeMovies cur parsed))
     = (distinct (map id_item cur) \<and>
        distinct (map id_item (filter (\<lambda>p. id_item p \<notin> set (map id_item cur)) parsed)))"
    for cur parsed
    by (auto simp: mergeMovies_eq) (metis imageI)
  then show ?thesis
    by (simp add: import_Complete ids_handleChoice emptyStore_def mergeMovies_eq)
qed

text \<open>
  Claim C2 as it is written fails: one batch with two rows of the same title and year,
  imported into the empty store, leaves two items of the same id in the collection, by a
  fresh import and by a merging import alike.
\<close>

theorem duplicate_ids_in_one_batch:
  "map id_item (movies (importRatingsCsv
      (Some (Complete [[(''Title'', ''X''), (''Year'', ''2001''), (''Rating'', ''5'')],
                       [(''Title'', ''X''), (''Year'', ''2001''), (''Rating'', ''1'')]]))
      False emptyStore)) = [''X|2001'', ''X|2001'']
   \<and> map id_item (movies (importRatingsCsv
      (Some (Complete [[(''Title'', ''X''), (''Year'', ''2001''), (''Rating'', ''5'')],
                       [(''Title'', ''X''), (''Year'', ''2001''), (''Rating'', ''1'')]]))
      True emptyStore)) = [''X|2001'', ''X|2001'']
   \<and> \<not> distinct [''X|2001'', ''X|2001'']"
  by code_simp

subsection \<open>The counters\<close>







lemma nth_handleChoice:
  assumes a: "List.find (\<lambda>m. id_item m = winnerId) (movies s) = Some a"
    and b: "List.find (\<lambda>m. id_item m = loserId) (movies s) = Some b"
    and u: "updateElo (real_of_int (elo a)) (real_of_int (elo b)) 1 None = (nA, nB)"
    and i: "i < length (movies s)"
  shows "movies (handleChoice now winnerId loserId s) ! i =
     (if id_item (movies s ! i) = winnerId
      then (movies s ! i)\<lparr>elo := nA, played := played (movies s ! i) + 1,
             wins := wins (movies s ! i) + 1\<rparr>
      else if id_item (movies s ! i) = loserId
      then (movies s ! i)\<lparr>elo := nB, played := played (movies s ! i) + 1,
             losses := losses (movies s ! i) + 1\<rparr>
      else movies s ! i)"
  using i find_id [OF a] find_id [OF b]
  by (simp add: handleChoice_present [OF a b] u bump_def)



text \<open>
  Claim C10. Let both ids be found in the collection, as the items \<open>a\<close> and \<open>b\<close>, and
  be different, and let \<open>(nA, nB)\<close> be what \<open>updateElo\<close> returns for their ratings and a
  win of the first. Then the collection keeps its length and its sequence of ids; an item
  with the winner's id changes in \<open>elo\<close>, \<open>played\<close> and \<open>wins\<close> only, an item with the
  loser's id in \<open>elo\<close>, \<open>played\<close> and \<open>losses\<close> only, and every other item is as it
  was; and the history is the old one with one entry in front, which holds the two ids,
  the two ratings before and the two after. If one of the ids is not found, the store is
  unchanged.
\<close>

theorem handleChoice_frame:
  "(List.find (\<lambda>m. id_item m = winnerId) (movies s) = Some a \<and>
    List.find (\<lambda>m. id_item m = loserId) (movies s) = Some b \<and>
    winnerId \<noteq> loserId \<and>
    updateElo (real_of_int (elo a)) (real_of_int (elo b)) 1 None = (nA, nB) \<longrightarrow>
      length (movies (handleChoice now winnerId loserId s)) = length (movies s)
      \<and> map id_item (movies (handleChoice now winnerId loserId s)) = map id_item (movies s)
      \<and> (\<forall>i < length (movies s).
           (id_item (movies s ! i) = winnerId \<longrightarrow>
              movies (handleChoice now winnerId loserId s) ! i =
                (movies s ! i)\<lparr>elo := nA, played := played (movies s ! i) + 1,
                                wins := wins (movies s ! i) + 1\<rparr>) \<and>
           (id_item (movies s ! i) = loserId \<longrightarrow>
              movies (handleChoice now winnerId loserId s) ! i =
                (movies s ! i)\<lparr>elo := nB, played := played (movies s ! i) + 1,
                                losses := losses (movies s ! i) + 1\<rparr>) \<and>
           (id_item (movies s ! i) \<noteq> winnerId \<and> id_item (movies s ! i) \<noteq> loserId \<longrightarrow>
              movies (handleChoice now winnerId loserId s) ! i = movies s ! i))
      \<and> history (handleChoice now winnerId loserId s) =
          \<lparr>time = now, winner = winnerId, loser = loserId, prevA = elo a, prevB = elo b,
           newA = nA, newB = nB\<rparr> # history s)
   \<and> (List.find (\<lambda>m. id_item m = winnerId) (movies s) = None \<or>
      List.find (\<lambda>m. id_item m = loserId) (movies s) = None \<longrightarrow>
        handleChoice now winnerId loserId s = s)"
proof (intro conjI impI)
  assume "List.find (\<lambda>m. id_item m = winnerId) (movies s) = None \<or>
      List.find (\<lambda>m. id_item m = loserId) (movies s) = None"
  then show "handleChoice now winnerId loserId s = s"
    by (rule handleChoice_absent)
next
  assume h: "List.find (\<lambda>m. id_item m = winnerId) (movies s) = Some a \<and>
    List.find (\<lambda>m. id_item m = loserId) (movies s) = Some b \<and>
    winnerId \<noteq> loserId \<and>
    updateElo (real_of_int (elo a)) (real_of_int (elo b)) 1 None = (nA, nB)"
  then have a: "List.find (\<lambda>m. id_item m = winnerId) (movies s) = Some a"
    and b: "List.find (\<lambda>m. id_item m = loserId) (movies s) = Some b"
    and d: "winnerId \<noteq> loserId"
    and u: "updateElo (real_of_int (elo a)) (real_of_int (elo b)) 1 None = (nA, nB)"
    by simp_all
  show "map id_item (movies (handleChoice now winnerId loserId s)) = map id_item (movies s)"
    by (rule ids_handleChoice)
  then show "length (movies (handleChoice now winnerId loserId s)) = length (movies s)"
    by (rule map_eq_imp_length_eq)
  show "history (handleChoice now winnerId loserId s) =
          \<lparr>time = now, winner = winnerId, loser = loserId, prevA = elo a, prevB = elo b,
           newA = nA, newB = nB\<rparr> # history s"
    using find_id [OF a] find_id [OF b] by (simp add: handleChoice_present [OF a b] u)
  show "\<forall>i < length (movies s).
           (id_item (movies s ! i) = winnerId \<longrightarrow>
              movies (handleChoice now winnerId loserId s) ! i =
                (movies s ! i)\<lparr>elo := nA, played := played (movies s ! i) + 1,
                                wins := wins (movies s ! i) + 1\<rparr>) \<and>
           (id_item (movies s ! i) = loserId \<longrightarrow>
              movies (handleChoice now winnerId loserId s) ! i =
                (movies s ! i)\<lparr>elo := nB, played := played (movies s ! i) + 1,
                                losses := losses (movies s ! i) + 1\<rparr>) \<and>
           (id_item (movies s ! i) \<noteq> winnerId \<and> id_item (movies s ! i) \<noteq> loserId \<longrightarrow>
              movies (handleChoice now winnerId loserId s) ! i = movies s ! i)"
    using d by (simp add: nth_handleChoice [OF a b u])
qed

lemma list_of_three: "length xs = 3 \<Longrightarrow> xs = [xs ! 0, xs ! 1, xs ! 2]"
  by (auto simp: length_Suc_conv numeral_3_eq_3 numeral_2_eq_2)

text \<open>
  Three items, a comparison between the first two, and a comparison with an id that the
  collection does not have.
\<close>

theorem handleChoice_frame_witness:
  "List.find (\<lambda>m. id_item m = ''A|'')
     [\<lparr>id_item = ''A|'', title = ''A'', year = '''', rating = None, elo = 1200,
        played = 0, wins = 0, losses = 0\<rparr>,
      \<lparr>id_item = ''B|'', title = ''B'', year = '''', rating = None, elo = 1200,
        played = 2, wins = 1, losses = 1\<rparr>,
      \<lparr>id_item = ''C|'', title = ''C'', year = '''', rating = None, elo = 1300,
        played = 0, wins = 0, losses = 0\<rparr>]
     = Some \<lparr>id_item = ''A|'', title = ''A'', year = '''', rating = None, elo = 1200,
        played = 0, wins = 0, losses = 0\<rparr>
   \<and> updateElo 1200 1200 1 None = (1216, 1184)
   \<and> handleChoice ''t'' ''A|'' ''B|''
       \<lparr>movies =
         [\<lparr>id_item = ''A|'', title = ''A'', year = '''', rating = None, elo = 1200,
            played = 0, wins = 0, losses = 0\<rparr>,
          \<lparr>id_item = ''B|'', title = ''B'', year = '''', rating = None, elo = 1200,
            played = 2, wins = 1, losses = 1\<rparr>,
          \<lparr>id_item = ''C|'', title = ''C'', year = '''', rating = None, elo = 1300,
            played = 0, wins = 0, losses = 0\<rparr>],
        history = []\<rparr>
     = \<lparr>movies =
         [\<lparr>id_item = ''A|'', title = ''A'', year = '''', rating = None, elo = 1216,
            played = 1, wins = 1, losses = 0\<rparr>,
          \<lparr>id_item = ''B|'', title = ''B'', year = '''', rating = None, elo = 1184,
            played = 3, wins = 1, losses = 2\<rparr>,
          \<lparr>id_item = ''C|'', title = ''C'', year = '''', rating = None, elo = 1300,
            played = 0, wins = 0, losses = 0\<rparr>],
        history = [\<lparr>time = ''t'', winner = ''A|'', loser = ''B|'', prevA = 1200, prevB = 1200,
                    newA = 1216, newB = 1184\<rparr>]\<rparr>
   \<and> handleChoice ''t'' ''A|'' ''Z|''
       \<lparr>movies =
         [\<lparr>id_item = ''A|'', title = ''A'', year = '''', rating = None, elo = 1200,
            played = 0, wins = 0, losses = 0\<rparr>],
        history = []\<rparr>
     = \<lparr>movies =
         [\<lparr>id_item = ''A|'', title = ''A'', year = '''', rating = None, elo = 1200,
            played = 0, wins = 0, losses = 0\<rparr>],
        history = []\<rparr>"
proof -
  let ?A = "\<lparr>id_item = ''A|'', title = ''A'', year = '''', rating = None, elo = 1200,
        played = 0, wins = 0, losses = 0\<rparr>"
  let ?B = "\<lparr>id_item = ''B|'', title = ''B'', year = '''', rating = None, elo = 1200,
        played = 2, wins = 1, losses = 1\<rparr>"
  let ?C = "\<lparr>id_item = ''C|'', title = ''C'', year = '''', rating = None, elo = 1300,
        played = 0, wins = 0, losses = 0\<rparr>"
  let ?s = "\<lparr>movies = [?A, ?B, ?C], history = []\<rparr>"
  let ?s' = "handleChoice ''t'' ''A|'' ''B|'' ?s"
  let ?t = "\<lparr>movies = [?A], history = []\<rparr>"
  have fa: "List.find (\<lambda>m. id_item m = ''A|'') (movies ?s) = Some ?A"
    by simp
  have fb: "List.find (\<lambda>m. id_item m = ''B|'') (movies ?s) = Some ?B"
    by simp
  have u: "updateElo (real_of_int (elo ?A)) (real_of_int (elo ?B)) 1 None = (1216, 1184)"
    by (simp add: updateElo_level)
  have d: "''A|'' \<noteq> ''B|''"
    by simp
  note f = handleChoice_frame [where s = ?s and winnerId = "''A|''" and loserId = "''B|''"
      and a = ?A and b = ?B and nA = 1216 and nB = 1184 and now = "''t''"]
  have len: "length (movies ?s') = 3"
    using f fa fb u d by simp
  have h: "history ?s' = [\<lparr>time = ''t'', winner = ''A|'', loser = ''B|'', prevA = 1200,
      prevB = 1200, newA = 1216, newB = 1184\<rparr>]"
    using f fa fb u d by simp
  have nth: "\<forall>i<3.
       (id_item ([?A, ?B, ?C] ! i) = ''A|'' \<longrightarrow>
          movies ?s' ! i = ([?A, ?B, ?C] ! i)\<lparr>elo := 1216, played := played ([?A, ?B, ?C] ! i) + 1,
                                wins := wins ([?A, ?B, ?C] ! i) + 1\<rparr>) \<and>
       (id_item ([?A, ?B, ?C] ! i) = ''B|'' \<longrightarrow>
          movies ?s' ! i = ([?A, ?B, ?C] ! i)\<lparr>elo := 1184, played := played ([?A, ?B, ?C] ! i) + 1,
                                losses := losses ([?A, ?B, ?C] ! i) + 1\<rparr>) \<and>
       (id_item ([?A, ?B, ?C] ! i) \<noteq> ''A|'' \<and> id_item ([?A, ?B, ?C] ! i) \<noteq> ''B|'' \<longrightarrow>
          movies ?s' ! i = [?A, ?B, ?C] ! i)"
    using f fa fb u d by simp
  have n0: "movies ?s' ! 0 = ?A\<lparr>elo := 1216, played := 1, wins := 1\<rparr>"
    using nth by simp
  have n1: "movies ?s' ! 1 = ?B\<lparr>elo := 1184, played := 3, losses := 2\<rparr>"
    using nth by simp
  have n2: "movies ?s' ! 2 = ?C"
    using nth by simp
  have m: "movies ?s' = [movies ?s' ! 0, movies ?s' ! 1, movies ?s' ! 2]"
    using len by (rule list_of_three)
  have all: "?s' = \<lparr>movies = [?A\<lparr>elo := 1216, played := 1, wins := 1\<rparr>,
        ?B\<lparr>elo := 1184, played := 3, losses := 2\<rparr>, ?C],
      history = [\<lparr>time = ''t'', winner = ''A|'', loser = ''B|'', prevA = 1200,
        prevB = 1200, newA = 1216, newB = 1184\<rparr>]\<rparr>"
    using m n0 n1 n2 h by (cases ?s') simp
  have fz: "List.find (\<lambda>m. id_item m = ''Z|'') (movies ?t) = None"
    by simp
  have z: "handleChoice ''t'' ''A|'' ''Z|'' ?t = ?t"
    using handleChoice_frame [where s = ?t and winnerId = "''A|''" and loserId = "''Z|''"
        and now = "''t''"] fz
    by simp
  show ?thesis
    using fa updateElo_level all z by simp
qed

section \<open>Properties of the pair selection\<close>

text \<open>The head of a stably sorted list is the first element of least key.\<close>

lemma hd_insort_key:
  "hd (insort_key f x ys) = (if ys = [] \<or> f x \<le> f (hd ys) then x else hd ys)"
  by (cases ys) auto

lemma hd_sort_key_first_min:
  "xs \<noteq> [] \<Longrightarrow>
   \<exists>k<length xs. hd (sort_key f xs) = xs ! k \<and>
     (\<forall>j<length xs. f (xs ! k) \<le> f (xs ! j)) \<and> (\<forall>j<k. f (xs ! k) < f (xs ! j))"
proof (induction xs)
  case Nil
  then show ?case by simp
next
  case (Cons x xs)
  show ?case
  proof (cases "xs = []")
    case True
    then show ?thesis by simp
  next
    case False
    with Cons.IH obtain k where k: "k < length xs" "hd (sort_key f xs) = xs ! k"
      "\<forall>j<length xs. f (xs ! k) \<le> f (xs ! j)" "\<forall>j<k. f (xs ! k) < f (xs ! j)"
      by blast
    have ne: "sort_key f xs \<noteq> []"
      using False by (metis length_sort length_0_conv)
    show ?thesis
    proof (cases "f x \<le> f (xs ! k)")
      case True
      have "hd (sort_key f (x # xs)) = (x # xs) ! 0"
        using True k(2) by (simp add: hd_insort_key)
      moreover have "\<forall>j<length (x # xs). f ((x # xs) ! 0) \<le> f ((x # xs) ! j)"
      proof (intro allI impI)
        fix j assume "j < length (x # xs)"
        then show "f ((x # xs) ! 0) \<le> f ((x # xs) ! j)"
          using True k(3) by (cases j) (auto intro: order_trans)
      qed
      ultimately show ?thesis by (intro exI [of _ 0]) simp
    next
      case False
      have "hd (sort_key f (x # xs)) = (x # xs) ! Suc k"
        using False k(2) ne by (simp add: hd_insort_key)
      moreover have "\<forall>j<length (x # xs). f ((x # xs) ! Suc k) \<le> f ((x # xs) ! j)"
      proof (intro allI impI)
        fix j assume "j < length (x # xs)"
        then show "f ((x # xs) ! Suc k) \<le> f ((x # xs) ! j)"
          using False k(3) by (cases j) auto
      qed
      moreover have "\<forall>j<Suc k. f ((x # xs) ! Suc k) < f ((x # xs) ! j)"
      proof (intro allI impI)
        fix j assume "j < Suc k"
        then show "f ((x # xs) ! Suc k) < f ((x # xs) ! j)"
          using False k(4) by (cases j) auto
      qed
      ultimately show ?thesis using k(1) by (intro exI [of _ "Suc k"]) simp
    qed
  qed
qed

text \<open>The picks are the retained draws of the rounds, in the order of the rounds.\<close>

lemma draw_append: "draw ms rnd i picks = picks @ draw ms rnd i []"
  by (simp add: draw_def split: option.split)

lemma fold_draw: "fold (draw ms rnd) is acc = acc @ concat (map (\<lambda>i. draw ms rnd i []) is)"
proof (induction "is" arbitrary: acc)
  case Nil
  then show ?case by simp
next
  case (Cons i "is")
  show ?case
    by (simp add: Cons.IH [of "draw ms rnd i acc"]) (subst draw_append, simp)
qed

lemma samplePicks_concat:
  "samplePicks ms rnd = concat (map (\<lambda>i. draw ms rnd i []) [0..<min 200 (length ms * 2)])"
  by (simp add: samplePicks_def sampleSize_def fold_draw)

lemma randomItem_in:
  assumes "randomItem ms x = Some a"
  shows "a \<in> set ms"
proof -
  define i where "i = \<lfloor>x * real (length ms)\<rfloor>"
  from assms have r: "0 \<le> i" "i < int (length ms)" "a = ms ! nat i"
    unfolding randomItem_def Let_def i_def [symmetric] by (simp_all split: if_splits)
  then have "nat i < length ms" by simp
  then show ?thesis using r(3) by simp
qed

lemma randomItem_unit:
  assumes "0 \<le> x" "x < 1" "ms \<noteq> []"
  shows "randomItem ms x = Some (ms ! nat \<lfloor>x * real (length ms)\<rfloor>)"
proof -
  have n: "0 < real (length ms)" using assms(3) by simp
  have "0 \<le> x * real (length ms)" using assms(1) by simp
  then have lo: "0 \<le> \<lfloor>x * real (length ms)\<rfloor>" by simp
  have "x * real (length ms) < 1 * real (length ms)"
    using assms(2) n by (rule mult_strict_right_mono)
  then have "\<lfloor>x * real (length ms)\<rfloor> < int (length ms)"
    by (simp add: floor_less_iff)
  with lo show ?thesis by (simp add: randomItem_def)
qed

lemma draw_pick:
  "p \<in> set (draw ms rnd i []) \<Longrightarrow>
     fst p \<in> set ms \<and> fst (snd p) \<in> set ms \<and> id_item (fst p) \<noteq> id_item (fst (snd p)) \<and>
     snd (snd p) = \<bar>elo (fst p) - elo (fst (snd p))\<bar>"
proof -
  assume p: "p \<in> set (draw ms rnd i [])"
  then obtain a b where a: "randomItem ms (rnd (2 * i)) = Some a"
    and b: "randomItem ms (rnd (2 * i + 1)) = Some b"
    and d: "id_item a \<noteq> id_item b" and e: "p = (a, b, \<bar>elo a - elo b\<bar>)"
    by (auto simp: draw_def split: option.splits if_splits)
  from randomItem_in [OF a] randomItem_in [OF b] d e show ?thesis
    by simp
qed

lemma samplePicks_pick:
  "p \<in> set (samplePicks ms rnd) \<Longrightarrow>
     fst p \<in> set ms \<and> fst (snd p) \<in> set ms \<and> id_item (fst p) \<noteq> id_item (fst (snd p)) \<and>
     snd (snd p) = \<bar>elo (fst p) - elo (fst (snd p))\<bar>"
  unfolding samplePicks_concat using draw_pick by fastforce

lemma pickPair_none: "length ms < 2 \<Longrightarrow> pickPair ms rnd = None"
  by (simp add: pickPair_def)

lemma pickPair_fallback:
  "2 \<le> length ms \<Longrightarrow> samplePicks ms rnd = [] \<Longrightarrow> pickPair ms rnd = Some (ms ! 0, ms ! 1)"
  by (simp add: pickPair_def)

lemma pickPair_hd:
  assumes "2 \<le> length ms" "samplePicks ms rnd \<noteq> []"
  shows "pickPair ms rnd =
    Some (fst (hd (sort_key (\<lambda>p. snd (snd p)) (samplePicks ms rnd))),
          fst (snd (hd (sort_key (\<lambda>p. snd (snd p)) (samplePicks ms rnd)))))"
proof -
  have "sort_key (\<lambda>p. snd (snd p)) (samplePicks ms rnd) \<noteq> []"
    using assms(2) by (metis length_sort length_0_conv)
  then show ?thesis
    using assms by (simp add: pickPair_def Let_def split: list.split)
qed

lemma pickPair_first_min:
  assumes "2 \<le> length ms" "samplePicks ms rnd \<noteq> []"
  shows "\<exists>k<length (samplePicks ms rnd).
      pickPair ms rnd = Some (fst (samplePicks ms rnd ! k), fst (snd (samplePicks ms rnd ! k))) \<and>
      (\<forall>j<length (samplePicks ms rnd).
         snd (snd (samplePicks ms rnd ! k)) \<le> snd (snd (samplePicks ms rnd ! j))) \<and>
      (\<forall>j<k. snd (snd (samplePicks ms rnd ! k)) < snd (snd (samplePicks ms rnd ! j)))"
proof -
  from hd_sort_key_first_min [OF assms(2), of "\<lambda>p. snd (snd p)"] obtain k where
    k: "k < length (samplePicks ms rnd)"
    "hd (sort_key (\<lambda>p. snd (snd p)) (samplePicks ms rnd)) = samplePicks ms rnd ! k"
    "\<forall>j<length (samplePicks ms rnd).
         snd (snd (samplePicks ms rnd ! k)) \<le> snd (snd (samplePicks ms rnd ! j))"
    "\<forall>j<k. snd (snd (samplePicks ms rnd ! k)) < snd (snd (samplePicks ms rnd ! j))"
    by blast
  have "pickPair ms rnd = Some (fst (samplePicks ms rnd ! k), fst (snd (samplePicks ms rnd ! k)))"
    by (simp add: pickPair_hd [OF assms] k(2))
  with k(1,3,4) show ?thesis by blast
qed

lemma pickPair_in:
  assumes "2 \<le> length ms"
  shows "\<exists>a b. pickPair ms rnd = Some (a, b) \<and> a \<in> set ms \<and> b \<in> set ms"
proof (cases "samplePicks ms rnd = []")
  case True
  have "ms ! 0 \<in> set ms" "ms ! 1 \<in> set ms"
    using assms by (auto intro!: nth_mem)
  then show ?thesis using assms True by (simp add: pickPair_fallback)
next
  case False
  from pickPair_first_min [OF assms False] obtain k where
    k: "k < length (samplePicks ms rnd)"
    "pickPair ms rnd = Some (fst (samplePicks ms rnd ! k), fst (snd (samplePicks ms rnd ! k)))"
    by blast
  have "samplePicks ms rnd ! k \<in> set (samplePicks ms rnd)"
    using k(1) by simp
  then show ?thesis
    using k(2) samplePicks_pick by blast
qed

text \<open>
  Claim C9. The random source is the argument \<open>rnd\<close>. With fewer than two items there
  is no pair. The retained draws are, round by round up to \<open>min 200 (2 * size)\<close>, the
  drawn pairs of two items with different ids, each with the absolute difference of the
  two ratings; a value of the random source in \<open>[0, 1)\<close> always draws an item. If no
  draw is retained, the pair is the first two items of the collection. Otherwise the
  pair is a retained draw whose difference is least among all retained draws and
  strictly less than that of every earlier one. With two items or more the result is a
  pair of items of the collection.
\<close>

theorem pickPair_selects:
  "(length ms < 2 \<longrightarrow> pickPair ms rnd = None)
   \<and> samplePicks ms rnd = concat (map (\<lambda>i. draw ms rnd i []) [0..<min 200 (length ms * 2)])
   \<and> draw ms rnd i [] =
       (case randomItem ms (rnd (2 * i)) of
          None \<Rightarrow> []
        | Some a \<Rightarrow>
            (case randomItem ms (rnd (2 * i + 1)) of
               None \<Rightarrow> []
             | Some b \<Rightarrow> if id_item a = id_item b then [] else [(a, b, \<bar>elo a - elo b\<bar>)]))
   \<and> (0 \<le> x \<and> x < 1 \<and> ms \<noteq> [] \<longrightarrow>
        randomItem ms x = Some (ms ! nat \<lfloor>x * real (length ms)\<rfloor>))
   \<and> (2 \<le> length ms \<and> samplePicks ms rnd = [] \<longrightarrow> pickPair ms rnd = Some (ms ! 0, ms ! 1))
   \<and> (2 \<le> length ms \<and> samplePicks ms rnd \<noteq> [] \<longrightarrow>
        (\<exists>k<length (samplePicks ms rnd).
           pickPair ms rnd =
             Some (fst (samplePicks ms rnd ! k), fst (snd (samplePicks ms rnd ! k))) \<and>
           (\<forall>j<length (samplePicks ms rnd).
              snd (snd (samplePicks ms rnd ! k)) \<le> snd (snd (samplePicks ms rnd ! j))) \<and>
           (\<forall>j<k. snd (snd (samplePicks ms rnd ! k)) < snd (snd (samplePicks ms rnd ! j)))))
   \<and> (\<forall>p \<in> set (samplePicks ms rnd).
        fst p \<in> set ms \<and> fst (snd p) \<in> set ms \<and> id_item (fst p) \<noteq> id_item (fst (snd p)) \<and>
        snd (snd p) = \<bar>elo (fst p) - elo (fst (snd p))\<bar>)
   \<and> (2 \<le> length ms \<longrightarrow> (\<exists>a b. pickPair ms rnd = Some (a, b) \<and> a \<in> set ms \<and> b \<in> set ms))"
proof (intro conjI impI ballI)
  show "samplePicks ms rnd = concat (map (\<lambda>i. draw ms rnd i []) [0..<min 200 (length ms * 2)])"
    by (rule samplePicks_concat)
  show "draw ms rnd i [] =
       (case randomItem ms (rnd (2 * i)) of
          None \<Rightarrow> []
        | Some a \<Rightarrow>
            (case randomItem ms (rnd (2 * i + 1)) of
               None \<Rightarrow> []
             | Some b \<Rightarrow> if id_item a = id_item b then [] else [(a, b, \<bar>elo a - elo b\<bar>)]))"
    by (simp add: draw_def split: option.split)
next
  assume "length ms < 2"
  then show "pickPair ms rnd = None" by (rule pickPair_none)
next
  assume "0 \<le> x \<and> x < 1 \<and> ms \<noteq> []"
  then show "randomItem ms x = Some (ms ! nat \<lfloor>x * real (length ms)\<rfloor>)"
    by (simp add: randomItem_unit)
next
  assume "2 \<le> length ms \<and> samplePicks ms rnd = []"
  then show "pickPair ms rnd = Some (ms ! 0, ms ! 1)"
    by (simp add: pickPair_fallback)
next
  assume "2 \<le> length ms \<and> samplePicks ms rnd \<noteq> []"
  then show "\<exists>k<length (samplePicks ms rnd).
           pickPair ms rnd =
             Some (fst (samplePicks ms rnd ! k), fst (snd (samplePicks ms rnd ! k))) \<and>
           (\<forall>j<length (samplePicks ms rnd).
              snd (snd (samplePicks ms rnd ! k)) \<le> snd (snd (samplePicks ms rnd ! j))) \<and>
           (\<forall>j<k. snd (snd (samplePicks ms rnd ! k)) < snd (snd (samplePicks ms rnd ! j)))"
    using pickPair_first_min [of ms rnd] by blast
next
  fix p assume p: "p \<in> set (samplePicks ms rnd)"
  from samplePicks_pick [OF p]
  show "fst p \<in> set ms" "fst (snd p) \<in> set ms" "id_item (fst p) \<noteq> id_item (fst (snd p))"
    "snd (snd p) = \<bar>elo (fst p) - elo (fst (snd p))\<bar>"
    by simp_all
next
  assume "2 \<le> length ms"
  then show "\<exists>a b. pickPair ms rnd = Some (a, b) \<and> a \<in> set ms \<and> b \<in> set ms"
    by (rule pickPair_in)
qed

text \<open>
  The empty collection; two items with a source that always draws the first one; and
  three items where the draws \<open>(A, B)\<close>, \<open>(B, C)\<close> and \<open>(C, B)\<close> are retained, with the
  differences 200, 10 and 10, and \<open>(B, C)\<close> is chosen.
\<close>

theorem pickPair_selects_witness:
  "pickPair [] (\<lambda>n. 0) = None
   \<and> samplePicks
       [\<lparr>id_item = ''A|'', title = ''A'', year = '''', rating = None, elo = 1000,
        played = 0, wins = 0, losses = 0\<rparr>,
        \<lparr>id_item = ''B|'', title = ''B'', year = '''', rating = None, elo = 1200,
        played = 0, wins = 0, losses = 0\<rparr>] (\<lambda>n. 0) = []
   \<and> pickPair
       [\<lparr>id_item = ''A|'', title = ''A'', year = '''', rating = None, elo = 1000,
        played = 0, wins = 0, losses = 0\<rparr>,
        \<lparr>id_item = ''B|'', title = ''B'', year = '''', rating = None, elo = 1200,
        played = 0, wins = 0, losses = 0\<rparr>] (\<lambda>n. 0)
     = Some (\<lparr>id_item = ''A|'', title = ''A'', year = '''', rating = None, elo = 1000,
        played = 0, wins = 0, losses = 0\<rparr>,
        \<lparr>id_item = ''B|'', title = ''B'', year = '''', rating = None, elo = 1200,
        played = 0, wins = 0, losses = 0\<rparr>)
   \<and> samplePicks
       [\<lparr>id_item = ''A|'', title = ''A'', year = '''', rating = None, elo = 1000,
        played = 0, wins = 0, losses = 0\<rparr>,
        \<lparr>id_item = ''B|'', title = ''B'', year = '''', rating = None, elo = 1200,
        played = 0, wins = 0, losses = 0\<rparr>,
        \<lparr>id_item = ''C|'', title = ''C'', year = '''', rating = None, elo = 1210,
        played = 0, wins = 0, losses = 0\<rparr>]
       (\<lambda>n. if n = 1 \<or> n = 4 \<or> n = 7 then 1 / 2 else if n = 5 \<or> n = 6 then 9 / 10 else 0)
     = [(\<lparr>id_item = ''A|'', title = ''A'', year = '''', rating = None, elo = 1000,
        played = 0, wins = 0, losses = 0\<rparr>,
         \<lparr>id_item = ''B|'', title = ''B'', year = '''', rating = None, elo = 1200,
        played = 0, wins = 0, losses = 0\<rparr>, 200),
        (\<lparr>id_item = ''B|'', title = ''B'', year = '''', rating = None, elo = 1200,
        played = 0, wins = 0, losses = 0\<rparr>,
         \<lparr>id_item = ''C|'', title = ''C'', year = '''', rating = None, elo = 1210,
        played = 0, wins = 0, losses = 0\<rparr>, 10),
        (\<lparr>id_item = ''C|'', title = ''C'', year = '''', rating = None, elo = 1210,
        played = 0, wins = 0, losses = 0\<rparr>,
         \<lparr>id_item = ''B|'', title = ''B'', year = '''', rating = None, elo = 1200,
        played = 0, wins = 0, losses = 0\<rparr>, 10)]
   \<and> pickPair
       [\<lparr>id_item = ''A|'', title = ''A'', year = '''', rating = None, elo = 1000,
        played = 0, wins = 0, losses = 0\<rparr>,
        \<lparr>id_item = ''B|'', title = ''B'', year = '''', rating = None, elo = 1200,
        played = 0, wins = 0, losses = 0\<rparr>,
        \<lparr>id_item = ''C|'', title = ''C'', year = '''', rating = None, elo = 1210,
        played = 0, wins = 0, losses = 0\<rparr>]
       (\<lambda>n. if n = 1 \<or> n = 4 \<or> n = 7 then 1 / 2 else if n = 5 \<or> n = 6 then 9 / 10 else 0)
     = Some (\<lparr>id_item = ''B|'', title = ''B'', year = '''', rating = None, elo = 1200,
        played = 0, wins = 0, losses = 0\<rparr>,
        \<lparr>id_item = ''C|'', title = ''C'', year = '''', rating = None, elo = 1210,
        played = 0, wins = 0, losses = 0\<rparr>)"
proof -
  let ?A = "\<lparr>id_item = ''A|'', title = ''A'', year = '''', rating = None, elo = 1000,
        played = 0, wins = 0, losses = 0\<rparr>"
  let ?B = "\<lparr>id_item = ''B|'', title = ''B'', year = '''', rating = None, elo = 1200,
        played = 0, wins = 0, losses = 0\<rparr>"
  let ?C = "\<lparr>id_item = ''C|'', title = ''C'', year = '''', rating = None, elo = 1210,
        played = 0, wins = 0, losses = 0\<rparr>"
  let ?r = "(\<lambda>n. if n = 1 \<or> n = 4 \<or> n = 7 then 1 / 2 else if n = 5 \<or> n = 6 then 9 / 10 else 0)"
  let ?P = "[(?A, ?B, 200), (?B, ?C, 10), (?C, ?B, 10 :: int)]"
  have n: "pickPair [] (\<lambda>n. 0) = None"
    using pickPair_selects [of "[]" "(\<lambda>n. 0)" 0 0, THEN conjunct1] by simp
  have e: "samplePicks [?A, ?B] (\<lambda>n. 0) = []"
    by code_simp
  have f: "pickPair [?A, ?B] (\<lambda>n. 0) = Some (?A, ?B)"
    using pickPair_selects [of "[?A, ?B]" "(\<lambda>n. 0)" 0 0, THEN conjunct2, THEN conjunct2,
        THEN conjunct2, THEN conjunct2, THEN conjunct1] e
    by simp
  have p: "samplePicks [?A, ?B, ?C] ?r = ?P"
    by code_simp
  have ne: "2 \<le> length [?A, ?B, ?C] \<and> samplePicks [?A, ?B, ?C] ?r \<noteq> []"
    unfolding p by simp
  note sel = pickPair_selects [of "[?A, ?B, ?C]" ?r 0 0, THEN conjunct2, THEN conjunct2,
      THEN conjunct2, THEN conjunct2, THEN conjunct2, THEN conjunct1, THEN mp, OF ne]
  have l3: "length ?P = 3"
    by simp
  from sel [unfolded p] obtain k where k: "k < length ?P"
    "pickPair [?A, ?B, ?C] ?r = Some (fst (?P ! k), fst (snd (?P ! k)))"
    "\<forall>j<length ?P. snd (snd (?P ! k)) \<le> snd (snd (?P ! j))"
    "\<forall>j<k. snd (snd (?P ! k)) < snd (snd (?P ! j))"
    by blast
  have "k = 0 \<or> k = 1 \<or> k = 2"
    using k(1) l3 by arith
  then have g: "pickPair [?A, ?B, ?C] ?r = Some (?B, ?C)"
  proof (elim disjE)
    assume k0: "k = 0"
    have "1 < length ?P" by simp
    with k(3) have "snd (snd (?P ! k)) \<le> snd (snd (?P ! 1))" by blast
    then show ?thesis unfolding k0 by simp
  next
    assume k1: "k = 1"
    show ?thesis using k(2) unfolding k1 by simp
  next
    assume k2: "k = 2"
    then have "1 < k" by simp
    with k(4) have "snd (snd (?P ! k)) < snd (snd (?P ! 1))" by blast
    then show ?thesis unfolding k2 by simp
  qed
  show ?thesis
    by (intro conjI) (rule n, rule e, rule f, rule p, rule g)
qed

end
